theory Spec2Isabelle
  imports Main "HOL-Library.Word" "HOL-Library.Sublist"
begin

section \<open>Go values and run-time failures\<close>

text \<open>
  The Go functions of \<^verbatim>\<open>src/plugin/cilium.go\<close> and \<^verbatim>\<open>src/core/deduplicator.go\<close> are
  embedded as HOL functions. A run-time panic of the Go code (a nil pointer dereference,
  an index out of range, an assignment into a nil map) is a value of type \<open>abort\<close>, and
  a function that can panic returns \<open>abort + 'a\<close>. \<open>RandomnessExhausted\<close> is not a Go
  panic: it says that a loop which draws random names did not stop within the draws
  that the model was given.
\<close>

datatype abort = NilDereference | IndexOutOfRange | NilMapAssignment | RandomnessExhausted

text \<open>
  A Go slice is \<open>nil\<close> or holds elements; \<^verbatim>\<open>cmp.Equal\<close> and the \<^verbatim>\<open>== nil\<close> tests of the
  synthesizer tell the two apart. \<open>len\<close> and \<open>range\<close> read a nil slice as empty, and
  \<open>append\<close> to a nil slice allocates.
\<close>

type_synonym 'a slice = "'a list option"

definition elems :: "'a slice \<Rightarrow> 'a list" where
  "elems s = (case s of None \<Rightarrow> [] | Some xs \<Rightarrow> xs)"

definition append_slice :: "'a slice \<Rightarrow> 'a \<Rightarrow> 'a slice" where
  "append_slice s x = Some (elems s @ [x])"

text \<open>
  A Go \<^verbatim>\<open>map[string]string\<close> is nil or a finite map. Reading a key that is absent (or
  reading a nil map) gives the empty string.
\<close>

type_synonym go_map = "(string \<rightharpoonup> string) option"

definition entries :: "go_map \<Rightarrow> (string \<rightharpoonup> string)" where
  "entries m = (case m of None \<Rightarrow> Map.empty | Some f \<Rightarrow> f)"

definition lookup :: "go_map \<Rightarrow> string \<Rightarrow> string" where
  "lookup m k = (case entries m k of None \<Rightarrow> [] | Some v \<Rightarrow> v)"

section \<open>Raw flows (the fields of \<^verbatim>\<open>cilium.Flow\<close> that the plugin reads)\<close>

record Timestamp =
  Seconds :: "64 word"

record Endpoint =
  ep_Namespace :: string
  ep_Labels :: "string list"
  ep_PodName :: string

record IP =
  ip_Source :: string
  ip_Destination :: string

record TCPFlags =
  SYN :: bool
  ACK :: bool

record TCP =
  tcp_SourcePort :: "32 word"
  tcp_DestinationPort :: "32 word"
  tcp_Flags :: "TCPFlags option"

record UDP =
  udp_SourcePort :: "32 word"
  udp_DestinationPort :: "32 word"

record ICMPv4 =
  icmp_Type :: "32 word"
  icmp_Code :: "32 word"

text \<open>The protocol of a \<^verbatim>\<open>Layer4\<close> is a oneof: at most one of the getters is non-nil.\<close>

datatype Layer4 = L4_TCP TCP | L4_UDP UDP | L4_ICMPv4 ICMPv4 | L4_Other

record HTTP =
  http_Method :: string
  http_Url :: string

record DNS =
  dns_Query :: string
  dns_Ips :: "string list"

datatype L7Record = L7_Dns DNS | L7_Http HTTP | L7_Other

record Layer7 =
  l7_Type :: int
  l7_Record :: L7Record

text \<open>The named values of the enum \<^verbatim>\<open>TrafficDirection\<close>, with the strings they print as.\<close>

datatype TrafficDirection = TRAFFIC_DIRECTION_UNKNOWN | INGRESS | EGRESS

record Flow =
  Time :: "Timestamp option"
  Verdict :: int
  DropReason :: "32 word"
  IP :: "IP option"
  L4 :: "Layer4 option"
  Source :: "Endpoint option"
  Destination :: "Endpoint option"
  L7 :: "Layer7 option"
  TrafficDirection :: TrafficDirection

definition Verdict_DROPPED :: int where
  "Verdict_DROPPED = 2"

fun TrafficDirection_String :: "TrafficDirection \<Rightarrow> string" where
  "TrafficDirection_String TRAFFIC_DIRECTION_UNKNOWN = ''TRAFFIC_DIRECTION_UNKNOWN''"
| "TrafficDirection_String INGRESS = ''INGRESS''"
| "TrafficDirection_String EGRESS = ''EGRESS''"

section \<open>Canonical network logs\<close>

record KnoxNetworkLog =
  FlowID :: int
  ClusterName :: string
  SrcNamespace :: string
  SrcPodName :: string
  DstNamespace :: string
  DstPodName :: string
  Protocol :: int
  SrcIP :: string
  DstIP :: string
  SrcPort :: int
  DstPort :: int
  SynFlag :: bool
  HTTPMethod :: string
  HTTPPath :: string
  DNSRes :: string
  DNSResIPs :: "string list"
  Direction :: string
  Action :: string

text \<open>The zero value \<^verbatim>\<open>types.KnoxNetworkLog{}\<close>.\<close>

definition zero_log :: KnoxNetworkLog where
  "zero_log = \<lparr> FlowID = 0, ClusterName = [], SrcNamespace = [], SrcPodName = [],
     DstNamespace = [], DstPodName = [], Protocol = 0, SrcIP = [], DstIP = [],
     SrcPort = 0, DstPort = 0, SynFlag = False, HTTPMethod = [], HTTPPath = [],
     DNSRes = [], DNSResIPs = [], Direction = [], Action = [] \<rparr>"

section \<open>Helper functions of the plugin\<close>

definition isSynFlagOnly :: "TCP \<Rightarrow> bool" where
  "isSynFlagOnly tcp =
     (case tcp_Flags tcp of None \<Rightarrow> False | Some fl \<Rightarrow> SYN fl \<and> \<not> ACK fl)"

fun getL4Ports :: "Layer4 \<Rightarrow> int \<times> int" where
  "getL4Ports (L4_TCP t) = (uint (tcp_SourcePort t), uint (tcp_DestinationPort t))"
| "getL4Ports (L4_UDP u) = (uint (udp_SourcePort u), uint (udp_DestinationPort u))"
| "getL4Ports (L4_ICMPv4 i) = (uint (icmp_Type i), uint (icmp_Code i))"
| "getL4Ports L4_Other = (- 1, - 1)"

fun getProtocol :: "Layer4 \<Rightarrow> int" where
  "getProtocol (L4_TCP t) = 6"
| "getProtocol (L4_UDP u) = 17"
| "getProtocol (L4_ICMPv4 i) = 1"
| "getProtocol L4_Other = 0"

fun GetTCP :: "Layer4 \<Rightarrow> TCP option" where
  "GetTCP (L4_TCP t) = Some t"
| "GetTCP _ = None"

fun getReservedLabelIfExist :: "string list \<Rightarrow> string" where
  "getReservedLabelIfExist [] = []"
| "getReservedLabelIfExist (label # labels) =
     (if prefix ''reserved:'' label then label else getReservedLabelIfExist labels)"

fun GetHttp :: "Layer7 \<Rightarrow> HTTP option" where
  "GetHttp l7 = (case l7_Record l7 of L7_Http h \<Rightarrow> Some h | _ \<Rightarrow> None)"

fun GetDns :: "Layer7 \<Rightarrow> DNS option" where
  "GetDns l7 = (case l7_Record l7 of L7_Dns d \<Rightarrow> Some d | _ \<Rightarrow> None)"

text \<open>
  \<^verbatim>\<open>getHTTP\<close> parses the request URL with Go's \<^verbatim>\<open>url.Parse\<close> and reads the path of the
  result without looking at the error. The parser is a parameter \<open>url_Parse\<close> of the
  model: it gives the path of the URL, or \<open>None\<close> where \<^verbatim>\<open>url.Parse\<close> fails and returns
  a nil URL, whose \<^verbatim>\<open>.Path\<close> is a nil dereference. When the path starts with two
  slashes, \<^verbatim>\<open>strings.Replace(path, "//", "/", 1)\<close> replaces that first occurrence.
\<close>

definition getHTTP :: "(string \<Rightarrow> string option) \<Rightarrow> Flow \<Rightarrow> abort + (string \<times> string)" where
  "getHTTP url_Parse flow =
     (case L7 flow of
        None \<Rightarrow> Inr ([], [])
      | Some l7 \<Rightarrow>
          (case GetHttp l7 of
             None \<Rightarrow> Inr ([], [])
           | Some h \<Rightarrow>
               if l7_Type l7 = 1 then
                 (case url_Parse (http_Url h) of
                    None \<Rightarrow> Inl NilDereference
                  | Some path \<Rightarrow>
                      Inr (http_Method h,
                           if prefix ''//'' path then CHR ''/'' # drop 2 path else path))
               else Inr ([], [])))"

definition TrimSuffix :: "string \<Rightarrow> string \<Rightarrow> string" where
  "TrimSuffix s suf = (if suffix suf s then take (length s - length suf) s else s)"

section \<open>The flow normalizer\<close>

text \<open>
  \<^verbatim>\<open>ConvertCiliumFlowToKnoxNetworkLog\<close>, statement by statement. Each stage takes the log
  built so far. A stage that reads a field of an absent sub-record panics.
\<close>

definition set_namespaces :: "Flow \<Rightarrow> KnoxNetworkLog \<Rightarrow> abort + KnoxNetworkLog" where
  "set_namespaces f log =
     (case Source f of
        None \<Rightarrow> Inl NilDereference
      | Some src \<Rightarrow>
          let log = log\<lparr>SrcNamespace :=
                     (if ep_Namespace src = [] then getReservedLabelIfExist (ep_Labels src)
                      else ep_Namespace src)\<rparr>
          in (case Destination f of
                None \<Rightarrow> Inl NilDereference
              | Some dst \<Rightarrow>
                  Inr (log\<lparr>DstNamespace :=
                     (if ep_Namespace dst = [] then getReservedLabelIfExist (ep_Labels dst)
                      else ep_Namespace dst)\<rparr>)))"

definition set_pods :: "Flow \<Rightarrow> KnoxNetworkLog \<Rightarrow> abort + KnoxNetworkLog" where
  "set_pods f log =
     (case Source f of
        None \<Rightarrow> Inl NilDereference
      | Some src \<Rightarrow>
          (case (if ep_PodName src = []
                 then (case IP f of None \<Rightarrow> Inl NilDereference | Some ip \<Rightarrow> Inr (ip_Source ip))
                 else Inr (ep_PodName src)) of
             Inl e \<Rightarrow> Inl e
           | Inr sp \<Rightarrow>
               (case Destination f of
                  None \<Rightarrow> Inl NilDereference
                | Some dst \<Rightarrow>
                    (case (if ep_PodName dst = []
                           then (case IP f of None \<Rightarrow> Inl NilDereference
                                 | Some ip \<Rightarrow> Inr (ip_Destination ip))
                           else Inr (ep_PodName dst)) of
                       Inl e \<Rightarrow> Inl e
                     | Inr dp \<Rightarrow> Inr (log\<lparr>SrcPodName := sp, DstPodName := dp\<rparr>)))))"

definition get_L4 :: "Layer4 \<Rightarrow> KnoxNetworkLog \<Rightarrow> KnoxNetworkLog" where
  "get_L4 l4 log =
     (let log = log\<lparr>Protocol := getProtocol l4\<rparr>;
          log = (case GetTCP l4 of
                   Some tcp \<Rightarrow> if Protocol log = 6 then log\<lparr>SynFlag := isSynFlagOnly tcp\<rparr> else log
                 | None \<Rightarrow> log)
      in log\<lparr>SrcPort := fst (getL4Ports l4), DstPort := snd (getL4Ports l4)\<rparr>)"

text \<open>The two L7 stages; \<open>Inr (log, False)\<close> is the early \<^verbatim>\<open>return log, false\<close>.\<close>

definition get_L7_DNS :: "Flow \<Rightarrow> KnoxNetworkLog \<Rightarrow> KnoxNetworkLog \<times> bool" where
  "get_L7_DNS f log =
     (case L7 f of
        None \<Rightarrow> (log, True)
      | Some l7 \<Rightarrow>
          (case GetDns l7 of
             None \<Rightarrow> (log, True)
           | Some d \<Rightarrow>
               if l7_Type l7 = 2 \<and> length (dns_Ips d) > 0 then
                 if suffix ''svc.cluster.local.'' (dns_Query d) then (log, False)
                 else (log\<lparr>DNSRes := TrimSuffix (dns_Query d) ''.'',
                           DNSResIPs := dns_Ips d\<rparr>, True)
               else (log, True)))"

definition get_L7_HTTP ::
  "(string \<Rightarrow> string option) \<Rightarrow> Flow \<Rightarrow> KnoxNetworkLog \<Rightarrow> abort + (KnoxNetworkLog \<times> bool)" where
  "get_L7_HTTP url_Parse f log =
     (case L7 f of
        None \<Rightarrow> Inr (get_L7_DNS f log)
      | Some l7 \<Rightarrow>
          (case GetHttp l7 of
             None \<Rightarrow> Inr (get_L7_DNS f log)
           | Some h \<Rightarrow>
               (case getHTTP url_Parse f of
                  Inl e \<Rightarrow> Inl e
                | Inr (m, p) \<Rightarrow>
                    let log = log\<lparr>HTTPMethod := m, HTTPPath := p\<rparr>
                    in if m = [] \<and> p = [] then Inr (log, False)
                       else Inr (get_L7_DNS f log))))"

definition ConvertCiliumFlowToKnoxNetworkLog ::
  "(string \<Rightarrow> string option) \<Rightarrow> Flow \<Rightarrow> abort + (KnoxNetworkLog \<times> bool)" where
  "ConvertCiliumFlowToKnoxNetworkLog url_Parse ciliumFlow =
     (let log = zero_log in
      if Verdict ciliumFlow = Verdict_DROPPED \<and> DropReason ciliumFlow = 181 then Inr (log, False)
      else
        let log = log\<lparr>Action := (if Verdict ciliumFlow = 2 then ''deny'' else ''allow'')\<rparr>;
            log = log\<lparr>Direction := TrafficDirection_String (TrafficDirection ciliumFlow)\<rparr>
        in (case set_namespaces ciliumFlow log of
              Inl e \<Rightarrow> Inl e
            | Inr log \<Rightarrow>
                (case set_pods ciliumFlow log of
                   Inl e \<Rightarrow> Inl e
                 | Inr log \<Rightarrow>
                     (case IP ciliumFlow of
                        None \<Rightarrow> Inr (log, False)
                      | Some ip \<Rightarrow>
                          let log = log\<lparr>SrcIP := ip_Source ip, DstIP := ip_Destination ip\<rparr>
                          in (case L4 ciliumFlow of
                                None \<Rightarrow> Inr (log, False)
                              | Some l4 \<Rightarrow> get_L7_HTTP url_Parse ciliumFlow (get_L4 l4 log))))))"

section \<open>The flow buffer\<close>

text \<open>
  \<^verbatim>\<open>GetCiliumFlowsFromHubble\<close> works on the global buffer \<^verbatim>\<open>CiliumFlows\<close> under the mutex;
  the model takes the buffer and returns the new buffer with the outcome. The log lines
  are the \<open>drain_event\<close> of a call that returns. After the swap the function reads
  \<^verbatim>\<open>results[0].Time.Seconds\<close> and \<^verbatim>\<open>results[len(results)-1].Time.Seconds\<close> for its log
  line; \<^verbatim>\<open>Time\<close> is a pointer, so a flow without a timestamp there is a nil dereference,
  and it happens after the buffer was reset.
\<close>

datatype drain_event =
    FlowNotExist
  | LessThanTrigger nat int
  | TotalNumber nat "64 word" "64 word"

definition GetCiliumFlowsFromHubble ::
  "int \<Rightarrow> Flow list \<Rightarrow> Flow list \<times> (abort + (Flow list \<times> drain_event))" where
  "GetCiliumFlowsFromHubble trigger CiliumFlows =
     (if length CiliumFlows = 0 then (CiliumFlows, Inr ([], FlowNotExist))
      else if int (length CiliumFlows) < trigger
      then (CiliumFlows, Inr ([], LessThanTrigger (length CiliumFlows) trigger))
      else
        let results = CiliumFlows in
        ([], case Time (hd results) of
               None \<Rightarrow> Inl NilDereference
             | Some startTime \<Rightarrow>
                 (case Time (last results) of
                    None \<Rightarrow> Inl NilDereference
                  | Some endTime \<Rightarrow>
                      Inr (results, TotalNumber (length results) (Seconds startTime) (Seconds endTime)))))"

section \<open>Canonical policies (\<^verbatim>\<open>types.KnoxNetworkPolicy\<close>) and the service catalog\<close>

text \<open>
  The package \<^verbatim>\<open>types\<close> is not part of the sources at hand; the records below hold the
  fields that the two source files read or write, with the types the code uses them at.
\<close>

record SpecPort =
  sp_Port :: string
  sp_Protocol :: string

record SpecCIDR =
  CIDRs :: "string slice"

record SpecFQDN =
  MatchNames :: "string slice"

record SpecService =
  ss_ServiceName :: string
  ss_Namespace :: string

record SpecHTTP =
  Method :: string
  Path :: string

record Selector =
  MatchLabels :: go_map

record Egress =
  e_MatchLabels :: go_map
  e_ToPorts :: "SpecPort slice"
  e_ToCIDRs :: "SpecCIDR slice"
  e_ToEndtities :: "string slice"
  e_ToServices :: "SpecService slice"
  e_ToFQDNs :: "SpecFQDN slice"
  e_ToHTTPs :: "SpecHTTP slice"

record Ingress =
  i_MatchLabels :: go_map
  i_ToPorts :: "SpecPort slice"
  i_ToHTTPs :: "SpecHTTP slice"
  i_FromCIDRs :: "SpecCIDR slice"
  i_FromEntities :: "string slice"

record Spec =
  Selector :: Selector
  Egress :: "Egress slice"
  Ingress :: "Ingress slice"

record KnoxNetworkPolicy =
  Metadata :: go_map
  Spec :: Spec

record Service =
  s_Namespace :: string
  s_ServiceName :: string
  s_ServicePort :: int
  s_Protocol :: string

section \<open>Platform policies (\<^verbatim>\<open>types.CiliumNetworkPolicy\<close>)\<close>

record CiliumPort =
  cp_Port :: string
  cp_Protocol :: string

record CiliumPortList =
  Ports :: "CiliumPort slice"
  Rules :: "(string \<rightharpoonup> go_map slice) option"

record CiliumEndpoint =
  ce_MatchLabels :: go_map

record CiliumK8sService =
  ServiceName :: string
  Namespace :: string

record CiliumService =
  K8sService :: CiliumK8sService

record CiliumEgress =
  ToEndpoints :: "CiliumEndpoint slice"
  ToPorts :: "CiliumPortList slice"
  ToCIDRs :: "string slice"
  ToEntities :: "string slice"
  ToServices :: "CiliumService slice"
  ToFQDNs :: "go_map slice"

record CiliumIngress =
  FromEndpoints :: "CiliumEndpoint slice"
  ci_ToPorts :: "CiliumPortList slice"
  FromCIDRs :: "string slice"
  FromEntities :: "string slice"

record CiliumSpec =
  cs_Selector :: Selector
  cs_Egress :: "CiliumEgress slice"
  cs_Ingress :: "CiliumIngress slice"

record CiliumNetworkPolicy =
  APIVersion :: string
  Kind :: string
  cnp_Metadata :: go_map
  cnp_Spec :: CiliumSpec

text \<open>The zero values \<^verbatim>\<open>types.CiliumEgress{}\<close> and \<^verbatim>\<open>types.CiliumIngress{}\<close>.\<close>

definition zero_CiliumEgress :: CiliumEgress where
  "zero_CiliumEgress = \<lparr> ToEndpoints = None, ToPorts = None, ToCIDRs = None,
     ToEntities = None, ToServices = None, ToFQDNs = None \<rparr>"

definition zero_CiliumIngress :: CiliumIngress where
  "zero_CiliumIngress = \<lparr> FromEndpoints = None, ci_ToPorts = None, FromCIDRs = None,
     FromEntities = None \<rparr>"

section \<open>Library functions used by the synthesizer\<close>

text \<open>
  \<^verbatim>\<open>strings.ToUpper\<close> on the ASCII letters (protocol names are ASCII; other bytes are
  left as they are), and \<^verbatim>\<open>strconv.Itoa\<close>.
\<close>

definition upper_char :: "char \<Rightarrow> char" where
  "upper_char c =
     (case map_of (zip ''abcdefghijklmnopqrstuvwxyz'' ''ABCDEFGHIJKLMNOPQRSTUVWXYZ'') c of
        None \<Rightarrow> c | Some u \<Rightarrow> u)"

definition ToUpper :: "string \<Rightarrow> string" where
  "ToUpper s = map upper_char s"

definition digit_char :: "nat \<Rightarrow> char" where
  "digit_char d = ''0123456789'' ! d"

function nat_digits :: "nat \<Rightarrow> string" where
  "nat_digits n = (if n < 10 then [digit_char n] else nat_digits (n div 10) @ [digit_char (n mod 10)])"
  by pat_completeness auto
termination
  by (relation "measure (\<lambda>n. n)") auto

definition Itoa :: "int \<Rightarrow> string" where
  "Itoa i = (if i < 0 then CHR ''-'' # nat_digits (nat (- i)) else nat_digits (nat i))"

section \<open>The policy synthesizer\<close>

text \<open>
  \<^verbatim>\<open>getCoreDNSEndpoint\<close>: the endpoint of the cluster DNS and one port list, with the
  static port 53/UDP when the catalog is empty and the ports of the \<^verbatim>\<open>kube-dns\<close>
  services of the catalog otherwise, under a wildcard \<^verbatim>\<open>dns\<close> rule.
\<close>

definition kube_dns_ports :: "Service list \<Rightarrow> CiliumPort list" where
  "kube_dns_ports services =
     map (\<lambda>svc. \<lparr> cp_Port = Itoa (s_ServicePort svc), cp_Protocol = ToUpper (s_Protocol svc) \<rparr>)
       (filter (\<lambda>svc. s_Namespace svc = ''kube-system'' \<and> s_ServiceName svc = ''kube-dns'') services)"

definition getCoreDNSEndpoint :: "Service list \<Rightarrow> CiliumEndpoint slice \<times> CiliumPortList slice" where
  "getCoreDNSEndpoint services =
     (let matchLabel = Some [''k8s:io.kubernetes.pod.namespace'' \<mapsto> ''kube-system'',
                             ''k8s-app'' \<mapsto> ''kube-dns''];
          coreDNS = Some [\<lparr> ce_MatchLabels = matchLabel \<rparr>];
          ports = (if length services = 0
                   then [\<lparr> cp_Port = Itoa 53, cp_Protocol = ToUpper ''UDP'' \<rparr>]
                   else kube_dns_ports services);
          dnsRules = Some [Some [''matchPattern'' \<mapsto> ''*'']]
      in (coreDNS, Some [\<lparr> Ports = Some ports, Rules = Some [''dns'' \<mapsto> dnsRules] \<rparr>]))"

text \<open>
  \<^verbatim>\<open>buildNewCiliumNetworkPolicy\<close> ranges over the metadata map, and Go visits the entries
  of a map in an order of its own choosing. The order is the parameter \<open>ks\<close>: the keys
  in the order in which the loop meets them.
\<close>

definition copy_entry :: "(string \<rightharpoonup> string) \<Rightarrow> (string \<rightharpoonup> string) \<Rightarrow> string \<Rightarrow> (string \<rightharpoonup> string)" where
  "copy_entry src acc k =
     (case src k of
        None \<Rightarrow> acc
      | Some v \<Rightarrow> if k = ''name'' \<or> k = ''namespace'' then acc(k \<mapsto> v) else acc)"

definition buildNewCiliumNetworkPolicy :: "string list \<Rightarrow> KnoxNetworkPolicy \<Rightarrow> CiliumNetworkPolicy" where
  "buildNewCiliumNetworkPolicy ks inPolicy =
     \<lparr> APIVersion = ''cilium.io/v2'',
       Kind = ''CiliumNetworkPolicy'',
       cnp_Metadata = Some (foldl (copy_entry (entries (Metadata inPolicy))) Map.empty ks),
       cnp_Spec = \<lparr> cs_Selector = \<lparr> MatchLabels = MatchLabels (Selector (Spec inPolicy)) \<rparr>,
                    cs_Egress = None, cs_Ingress = None \<rparr> \<rparr>"

text \<open>
  The port loops. The platform port list is allocated when the first port is attached:
  \<open>allocate\<close> is the body of \<^verbatim>\<open>if ... ToPorts == nil\<close>, with the \<^verbatim>\<open>http\<close> rules of the
  label branch, and \<open>attach_port\<close> is the append to \<^verbatim>\<open>ToPorts[0].Ports\<close>, which the
  allocation has put in range.
\<close>

definition http_rules :: "SpecHTTP slice \<Rightarrow> (string \<rightharpoonup> go_map slice) option" where
  "http_rules toHTTPs =
     (if length (elems toHTTPs) > 0
      then Some [''http'' \<mapsto>
             Some (map (\<lambda>http. Some [''method'' \<mapsto> Method http, ''path'' \<mapsto> Path http]) (elems toHTTPs))]
      else None)"

definition allocate :: "(string \<rightharpoonup> go_map slice) option \<Rightarrow> CiliumPortList slice \<Rightarrow> CiliumPortList slice" where
  "allocate rules toPorts =
     (if toPorts = None then Some [\<lparr> Ports = Some [], Rules = rules \<rparr>] else toPorts)"

definition attach_port :: "SpecPort \<Rightarrow> CiliumPortList slice \<Rightarrow> CiliumPortList slice" where
  "attach_port toPort toPorts =
     (case toPorts of
        Some (pl # rest) \<Rightarrow>
          Some (pl\<lparr>Ports := append_slice (Ports pl)
                   \<lparr> cp_Port = sp_Port toPort, cp_Protocol = ToUpper (sp_Protocol toPort) \<rparr>\<rparr> # rest)
      | _ \<Rightarrow> toPorts)"

text \<open>The loop of the egress label and CIDR branches skips a port without a number.\<close>

fun ports_skipping_empty ::
  "(string \<rightharpoonup> go_map slice) option \<Rightarrow> SpecPort list \<Rightarrow> CiliumPortList slice \<Rightarrow> CiliumPortList slice" where
  "ports_skipping_empty rules [] toPorts = toPorts"
| "ports_skipping_empty rules (toPort # rest) toPorts =
     (if sp_Port toPort = [] then ports_skipping_empty rules rest toPorts
      else ports_skipping_empty rules rest (attach_port toPort (allocate rules toPorts)))"

text \<open>The loop of the egress FQDN branch and of the ingress label branch has no such test.\<close>

fun ports_all ::
  "(string \<rightharpoonup> go_map slice) option \<Rightarrow> SpecPort list \<Rightarrow> CiliumPortList slice \<Rightarrow> CiliumPortList slice" where
  "ports_all rules [] toPorts = toPorts"
| "ports_all rules (toPort # rest) toPorts =
     ports_all rules rest (attach_port toPort (allocate rules toPorts))"

text \<open>Appending to a list that is allocated on its first element (entities, services).\<close>

definition append_allocating :: "'a slice \<Rightarrow> 'a \<Rightarrow> 'a slice" where
  "append_allocating s x = append_slice (if s = None then Some [] else s) x"

text \<open>The CIDR branch: every CIDR entry overwrites the CIDR list and runs the port loop.\<close>

fun egress_cidrs :: "SpecPort list \<Rightarrow> SpecCIDR list \<Rightarrow> CiliumEgress \<Rightarrow> CiliumEgress" where
  "egress_cidrs knoxPorts [] ciliumEgress = ciliumEgress"
| "egress_cidrs knoxPorts (toCIDR # rest) ciliumEgress =
     (let ciliumEgress = ciliumEgress\<lparr>ToCIDRs := Some (elems (CIDRs toCIDR))\<rparr>
      in egress_cidrs knoxPorts rest
           (ciliumEgress\<lparr>ToPorts := ports_skipping_empty None knoxPorts (ToPorts ciliumEgress)\<rparr>))"

text \<open>
  The FQDN branch: every FQDN entry sets the DNS endpoint and its port list on the
  entry under construction and emits one further entry with the match names and the
  ports. The result is the entry under construction and the emitted entries.
\<close>

definition egress_fqdn_entry :: "SpecPort list \<Rightarrow> SpecFQDN \<Rightarrow> CiliumEgress" where
  "egress_fqdn_entry knoxPorts fqdn =
     zero_CiliumEgress
       \<lparr> ToFQDNs := Some (map (\<lambda>matchName. Some [''matchName'' \<mapsto> matchName]) (elems (MatchNames fqdn))),
         ToPorts := ports_all None knoxPorts None \<rparr>"

fun egress_fqdns ::
  "Service list \<Rightarrow> SpecPort list \<Rightarrow> SpecFQDN list \<Rightarrow> CiliumEgress \<Rightarrow> CiliumEgress \<times> CiliumEgress list" where
  "egress_fqdns services knoxPorts [] ciliumEgress = (ciliumEgress, [])"
| "egress_fqdns services knoxPorts (fqdn # rest) ciliumEgress =
     (let ciliumEgress = ciliumEgress\<lparr>ToEndpoints := fst (getCoreDNSEndpoint services),
                                     ToPorts := snd (getCoreDNSEndpoint services)\<rparr>;
          (ciliumEgress', emitted) = egress_fqdns services knoxPorts rest ciliumEgress
      in (ciliumEgress', egress_fqdn_entry knoxPorts fqdn # emitted))"

text \<open>
  One egress entry of the canonical policy: the entries appended to
  \<^verbatim>\<open>ciliumPolicy.Spec.Egress\<close> for it, in order. The branches are tried in the order
  label, CIDR, entity, service, FQDN.
\<close>

definition convert_egress :: "Service list \<Rightarrow> Egress \<Rightarrow> CiliumEgress list" where
  "convert_egress services knoxEgress =
     (let ciliumEgress = zero_CiliumEgress in
      if e_MatchLabels knoxEgress \<noteq> None then
        [ciliumEgress\<lparr>ToEndpoints := Some [\<lparr> ce_MatchLabels = e_MatchLabels knoxEgress \<rparr>],
                      ToPorts := ports_skipping_empty (http_rules (e_ToHTTPs knoxEgress))
                                   (elems (e_ToPorts knoxEgress)) None\<rparr>]
      else if length (elems (e_ToCIDRs knoxEgress)) > 0 then
        [egress_cidrs (elems (e_ToPorts knoxEgress)) (elems (e_ToCIDRs knoxEgress)) ciliumEgress]
      else if length (elems (e_ToEndtities knoxEgress)) > 0 then
        [ciliumEgress\<lparr>ToEntities := foldl append_allocating None (elems (e_ToEndtities knoxEgress))\<rparr>]
      else if length (elems (e_ToServices knoxEgress)) > 0 then
        [ciliumEgress\<lparr>ToServices := foldl append_allocating None
           (map (\<lambda>service. \<lparr> K8sService = \<lparr> ServiceName = ss_ServiceName service,
                                              Namespace = ss_Namespace service \<rparr> \<rparr>)
              (elems (e_ToServices knoxEgress)))\<rparr>]
      else if length (elems (e_ToFQDNs knoxEgress)) > 0 then
        (let (ciliumEgress', emitted) =
               egress_fqdns services (elems (e_ToPorts knoxEgress)) (elems (e_ToFQDNs knoxEgress)) ciliumEgress
         in emitted @ [ciliumEgress'])
      else [ciliumEgress])"

text \<open>
  One ingress entry. The label branch, the CIDR loop and the entity loop all run on the
  same entry; the port loop of the label branch attaches every port.
\<close>

definition convert_ingress :: "Ingress \<Rightarrow> CiliumIngress" where
  "convert_ingress knoxIngress =
     (let ciliumIngress = zero_CiliumIngress;
          ciliumIngress =
            (if i_MatchLabels knoxIngress \<noteq> None then
               ciliumIngress\<lparr>FromEndpoints := Some [\<lparr> ce_MatchLabels = i_MatchLabels knoxIngress \<rparr>],
                             ci_ToPorts := ports_all (http_rules (i_ToHTTPs knoxIngress))
                                             (elems (i_ToPorts knoxIngress)) None\<rparr>
             else ciliumIngress);
          ciliumIngress = ciliumIngress\<lparr>FromCIDRs :=
             foldl append_slice (FromCIDRs ciliumIngress)
               (concat (map (\<lambda>fromCIDR. elems (CIDRs fromCIDR)) (elems (i_FromCIDRs knoxIngress))))\<rparr>
      in ciliumIngress\<lparr>FromEntities :=
           foldl append_allocating (FromEntities ciliumIngress) (elems (i_FromEntities knoxIngress))\<rparr>)"

definition ConvertKnoxNetworkPolicyToCiliumPolicy ::
  "Service list \<Rightarrow> string list \<Rightarrow> KnoxNetworkPolicy \<Rightarrow> CiliumNetworkPolicy" where
  "ConvertKnoxNetworkPolicyToCiliumPolicy services ks inPolicy =
     (let ciliumPolicy = buildNewCiliumNetworkPolicy ks inPolicy;
          egress = (if length (elems (Egress (Spec inPolicy))) > 0
                    then Some (concat (map (convert_egress services) (elems (Egress (Spec inPolicy)))))
                    else cs_Egress (cnp_Spec ciliumPolicy));
          ingress = (if length (elems (Ingress (Spec inPolicy))) > 0
                     then Some (map convert_ingress (elems (Ingress (Spec inPolicy))))
                     else cs_Ingress (cnp_Spec ciliumPolicy))
      in ciliumPolicy\<lparr>cnp_Spec := (cnp_Spec ciliumPolicy)\<lparr>cs_Egress := egress, cs_Ingress := ingress\<rparr>\<rparr>)"

section \<open>Library functions used by the deduplicator\<close>

text \<open>\<^verbatim>\<open>strings.Contains\<close>, \<^verbatim>\<open>strings.HasPrefix\<close> and \<^verbatim>\<open>strings.Split(s, "/")[0]\<close>.\<close>

fun Contains :: "string \<Rightarrow> string \<Rightarrow> bool" where
  "Contains [] substr = (substr = [])"
| "Contains (c # s) substr = (prefix substr (c # s) \<or> Contains s substr)"

definition HasPrefix :: "string \<Rightarrow> string \<Rightarrow> bool" where
  "HasPrefix s pre = prefix pre s"

definition before_slash :: "string \<Rightarrow> string" where
  "before_slash s = takeWhile (\<lambda>c. c \<noteq> CHR ''/'') s"

text \<open>
  Modelled from the spec: \<^verbatim>\<open>libs.ContainsElement\<close> is not among the sources; the spec
  describes it as presence "by value equality", which is membership in the list.
\<close>

definition ContainsElement :: "'a list \<Rightarrow> 'a \<Rightarrow> bool" where
  "ContainsElement xs x = (x \<in> set xs)"

text \<open>A loop over a list whose body may panic.\<close>

fun for_each :: "('a \<Rightarrow> 's \<Rightarrow> abort + 's) \<Rightarrow> 'a list \<Rightarrow> 's \<Rightarrow> abort + 's" where
  "for_each body [] st = Inr st"
| "for_each body (x # xs) st =
     (case body x st of Inl e \<Rightarrow> Inl e | Inr st' \<Rightarrow> for_each body xs st')"

section \<open>The deduplicator\<close>

text \<open>The zero value \<^verbatim>\<open>types.KnoxNetworkPolicy{}\<close>.\<close>

definition zero_policy :: KnoxNetworkPolicy where
  "zero_policy = \<lparr> Metadata = None,
     Spec = \<lparr> Selector = \<lparr> MatchLabels = None \<rparr>, Egress = None, Ingress = None \<rparr> \<rparr>"

text \<open>\<^verbatim>\<open>p.Spec.Egress[0]\<close>, which panics on a policy without egress entries.\<close>

definition Egress0 :: "KnoxNetworkPolicy \<Rightarrow> abort + Egress" where
  "Egress0 p = (case elems (Egress (Spec p)) of [] \<Rightarrow> Inl IndexOutOfRange | e # _ \<Rightarrow> Inr e)"

text \<open>\<^verbatim>\<open>p.Spec.Egress[0].ToCIDRs[0].CIDRs\<close> and \<^verbatim>\<open>p.Spec.Egress[0].ToFQDNs[0].MatchNames\<close>.\<close>

definition Egress0_CIDRs :: "KnoxNetworkPolicy \<Rightarrow> abort + string list" where
  "Egress0_CIDRs p =
     (case Egress0 p of
        Inl e \<Rightarrow> Inl e
      | Inr eg \<Rightarrow> (case elems (e_ToCIDRs eg) of
                    [] \<Rightarrow> Inl IndexOutOfRange
                  | c # _ \<Rightarrow> Inr (elems (CIDRs c))))"

definition Egress0_MatchNames :: "KnoxNetworkPolicy \<Rightarrow> abort + string list" where
  "Egress0_MatchNames p =
     (case Egress0 p of
        Inl e \<Rightarrow> Inl e
      | Inr eg \<Rightarrow> (case elems (e_ToFQDNs eg) of
                    [] \<Rightarrow> Inl IndexOutOfRange
                  | f # _ \<Rightarrow> Inr (elems (MatchNames f))))"

text \<open>
  The nested loop under the comment \<^verbatim>\<open>check cidr list\<close>. Both loops of the source range
  over the list of the discovered policy, so \<open>included\<close> takes that one list: the flag
  stays true when no two of its elements differ.
\<close>

definition included :: "string list \<Rightarrow> bool" where
  "included xs = list_all (\<lambda>cidr. list_all (\<lambda>existCidr. \<not> cidr \<noteq> existCidr) xs) xs"

fun GetLatestCIDRs ::
  "KnoxNetworkPolicy list \<Rightarrow> KnoxNetworkPolicy \<Rightarrow> abort + (KnoxNetworkPolicy \<times> bool)" where
  "GetLatestCIDRs [] policy = Inr (zero_policy, False)"
| "GetLatestCIDRs (exist # existingPolicies) policy =
     (let existStatus = lookup (Metadata exist) ''status'';
          existPolicyType = lookup (Metadata exist) ''type'';
          existRule = lookup (Metadata exist) ''rule''
      in if Selector (Spec exist) = Selector (Spec policy) \<and>
            existPolicyType = lookup (Metadata policy) ''type'' \<and>
            Contains existRule ''toCIDRs'' \<and>
            existStatus = ''latest''
         then (case Egress0_CIDRs policy of
                 Inl e \<Rightarrow> Inl e
               | Inr cidrs \<Rightarrow>
                   if included cidrs then Inr (exist, True)
                   else GetLatestCIDRs existingPolicies policy)
         else GetLatestCIDRs existingPolicies policy)"

fun GetLastedFQDNs ::
  "KnoxNetworkPolicy list \<Rightarrow> KnoxNetworkPolicy \<Rightarrow> abort + (KnoxNetworkPolicy \<times> bool)" where
  "GetLastedFQDNs [] policy = Inr (zero_policy, False)"
| "GetLastedFQDNs (exist # existingPolicies) policy =
     (let existStatus = lookup (Metadata exist) ''status'';
          existPolicyType = lookup (Metadata exist) ''type'';
          existRule = lookup (Metadata exist) ''rule''
      in if Selector (Spec exist) = Selector (Spec policy) \<and>
            existPolicyType = lookup (Metadata policy) ''type'' \<and>
            Contains existRule ''toFQDNs'' \<and>
            existStatus = ''latest''
         then (case Egress0_MatchNames policy of
                 Inl e \<Rightarrow> Inl e
               | Inr names \<Rightarrow>
                   if included names then Inr (exist, True)
                   else GetLastedFQDNs existingPolicies policy)
         else GetLastedFQDNs existingPolicies policy)"

text \<open>
  The port merge of \<^verbatim>\<open>UpdateCIDR\<close>, \<^verbatim>\<open>UpdateFQDN\<close> and the promotion pass: every port of
  the older policy that the list does not hold yet is appended.
\<close>

definition merge_ports :: "SpecPort slice \<Rightarrow> SpecPort list \<Rightarrow> SpecPort slice" where
  "merge_ports toPorts older =
     foldl (\<lambda>toPorts toPort.
              if \<not> ContainsElement (elems toPorts) toPort then append_slice toPorts toPort
              else toPorts) toPorts older"

text \<open>The assignment \<^verbatim>\<open>p.Spec.Egress[0].ToPorts = toPorts\<close>.\<close>

definition set_Egress0_ToPorts :: "KnoxNetworkPolicy \<Rightarrow> SpecPort slice \<Rightarrow> abort + KnoxNetworkPolicy" where
  "set_Egress0_ToPorts p toPorts =
     (case elems (Egress (Spec p)) of
        [] \<Rightarrow> Inl IndexOutOfRange
      | e # rest \<Rightarrow> Inr (p\<lparr>Spec := (Spec p)\<lparr>Egress := Some (e\<lparr>e_ToPorts := toPorts\<rparr> # rest)\<rparr>\<rparr>))"

text \<open>
  \<^verbatim>\<open>libs.UpdateOutdatedLabel(outdated, latest)\<close> writes to the policy store, which is
  outside these sources. The model records each call as a pair (name of the policy
  marked outdated, name it refers to), in the order of the calls.
\<close>

type_synonym outdated_labels = "(string \<times> string) list"

definition name_of :: "KnoxNetworkPolicy \<Rightarrow> string" where
  "name_of p = lookup (Metadata p) ''name''"

text \<open>
  The three cases that \<^verbatim>\<open>UpdateCIDR\<close> and \<^verbatim>\<open>UpdateFQDN\<close> share, on the result of the
  search for the latest policy. The result is the policy, the flag \<^verbatim>\<open>valid\<close> and the
  labels written. Case 2 and case 3 both read \<^verbatim>\<open>Egress[0]\<close> of the latest policy (case 2
  when the discovered policy has no ports, case 3 in the head of its loop).
\<close>

definition merge_latest ::
  "KnoxNetworkPolicy \<Rightarrow> KnoxNetworkPolicy \<times> bool \<Rightarrow> abort + (KnoxNetworkPolicy \<times> bool \<times> outdated_labels)" where
  "merge_latest policy found =
     (let (latest, exist) = found in
      if \<not> exist then Inr (policy, True, [])
      else
        (case Egress0 policy of
           Inl e \<Rightarrow> Inl e
         | Inr pe \<Rightarrow>
             (case Egress0 latest of
                Inl e \<Rightarrow> Inl e
              | Inr le \<Rightarrow>
                  if length (elems (e_ToPorts pe)) = 0 \<and> length (elems (e_ToPorts le)) > 0
                  then Inr (policy, False, [])
                  else
                    (case set_Egress0_ToPorts policy (merge_ports (e_ToPorts pe) (elems (e_ToPorts le))) of
                       Inl e \<Rightarrow> Inl e
                     | Inr policy' \<Rightarrow> Inr (policy', True, [(name_of latest, name_of policy)])))))"

definition UpdateCIDR ::
  "KnoxNetworkPolicy \<Rightarrow> KnoxNetworkPolicy list \<Rightarrow> abort + (KnoxNetworkPolicy \<times> bool \<times> outdated_labels)" where
  "UpdateCIDR policy existingPolicies =
     (if lookup (Metadata policy) ''type'' = ''egress'' then
        (case GetLatestCIDRs existingPolicies policy of
           Inl e \<Rightarrow> Inl e
         | Inr found \<Rightarrow> merge_latest policy found)
      else Inr (policy, True, []))"

definition UpdateFQDN ::
  "KnoxNetworkPolicy \<Rightarrow> KnoxNetworkPolicy list \<Rightarrow> abort + (KnoxNetworkPolicy \<times> bool \<times> outdated_labels)" where
  "UpdateFQDN policy existingPolicies =
     (if lookup (Metadata policy) ''type'' = ''egress'' then
        (case GetLastedFQDNs existingPolicies policy of
           Inl e \<Rightarrow> Inl e
         | Inr found \<Rightarrow> merge_latest policy found)
      else Inr (policy, True, []))"

definition IsExistedPolicy :: "KnoxNetworkPolicy list \<Rightarrow> KnoxNetworkPolicy \<Rightarrow> bool" where
  "IsExistedPolicy existingPolicies inPolicy = list_ex (\<lambda>policy. Spec policy = Spec inPolicy) existingPolicies"

text \<open>
  \<^verbatim>\<open>libs.RandSeq(10)\<close> is outside these sources. The renaming loop takes the results of
  its future calls as a list \<open>draws\<close> and returns the draws it has not used. The loop of
  the source ends only when a name outside \<open>existNames\<close> comes up; the model stops with
  \<open>RandomnessExhausted\<close> when the draws run out first.
\<close>

fun fresh_name :: "string list \<Rightarrow> string \<Rightarrow> string list \<Rightarrow> abort + (string \<times> string list)" where
  "fresh_name existNames name [] =
     (if ContainsElement existNames name then Inl RandomnessExhausted else Inr (name, []))"
| "fresh_name existNames name (r # draws) =
     (if ContainsElement existNames name then
        (if HasPrefix name ''autopol-egress''
         then fresh_name existNames (''autopol-egress'' @ r) draws
         else fresh_name existNames (''autopol-ingress'' @ r) draws)
      else Inr (name, r # draws))"

definition ReplaceDuplcatedName ::
  "KnoxNetworkPolicy list \<Rightarrow> KnoxNetworkPolicy \<Rightarrow> string list \<Rightarrow> abort + (KnoxNetworkPolicy \<times> string list)" where
  "ReplaceDuplcatedName existingPolicies policy draws =
     (let existNames = map (\<lambda>exist. lookup (Metadata exist) ''name'') existingPolicies
      in case fresh_name existNames (lookup (Metadata policy) ''name'') draws of
           Inl e \<Rightarrow> Inl e
         | Inr (name, draws') \<Rightarrow>
             (case Metadata policy of
                None \<Rightarrow> Inl NilMapAssignment
              | Some m \<Rightarrow> Inr (policy\<lparr>Metadata := Some (m(''name'' \<mapsto> name))\<rparr>, draws')))"

text \<open>
  The main loop of \<^verbatim>\<open>DeduplicatePolicies\<close>. Its state is the list \<^verbatim>\<open>newPolicies\<close>, the
  labels written so far and the unused draws.
\<close>

record loop_state =
  newPolicies :: "KnoxNetworkPolicy list"
  labels :: outdated_labels
  draws :: "string list"

definition dedup_step :: "KnoxNetworkPolicy list \<Rightarrow> KnoxNetworkPolicy \<Rightarrow> loop_state \<Rightarrow> abort + loop_state" where
  "dedup_step existingPolicies policy st =
     (if IsExistedPolicy existingPolicies policy then Inr st
      else
        (case (if Contains (lookup (Metadata policy) ''rule'') ''toCIDRs''
               then UpdateCIDR policy existingPolicies else Inr (policy, True, [])) of
           Inl e \<Rightarrow> Inl e
         | Inr (policy, valid, ls1) \<Rightarrow>
             let st = st\<lparr>labels := labels st @ ls1\<rparr> in
             if \<not> valid then Inr st
             else
               (case (if Contains (lookup (Metadata policy) ''rule'') ''toFQDNs''
                      then UpdateFQDN policy existingPolicies else Inr (policy, True, [])) of
                  Inl e \<Rightarrow> Inl e
                | Inr (policy, valid, ls2) \<Rightarrow>
                    let st = st\<lparr>labels := labels st @ ls2\<rparr> in
                    if \<not> valid then Inr st
                    else
                      (case ReplaceDuplcatedName existingPolicies policy (draws st) of
                         Inl e \<Rightarrow> Inl e
                       | Inr (namedPolicy, draws') \<Rightarrow>
                           Inr (st\<lparr>newPolicies := newPolicies st @ [namedPolicy], draws := draws'\<rparr>)))))"

section \<open>The promotion pass\<close>

text \<open>
  \<^verbatim>\<open>updateExistCIDRtoNewFQDN\<close> writes into \<^verbatim>\<open>newPolicies\<close> while it holds copies of its
  elements. A copy of a policy struct shares the array of its egress entries and its
  metadata map with the original, so a write to \<^verbatim>\<open>fqdnPolicy.Spec.Egress[0].ToPorts\<close> is
  seen through every copy, and \<^verbatim>\<open>newPolicies[i] = fqdnPolicy\<close> makes slot \<open>i\<close> one more
  copy of that policy. The state of the pass therefore keeps the policies that the main
  loop has produced as objects \<open>objs\<close>, and \<^verbatim>\<open>newPolicies\<close> as the list \<open>slots\<close> of the
  objects its elements are copies of. (The policies of one input list are taken not to
  share arrays or maps with one another.)

  \<^verbatim>\<open>getDomainNameFromMap\<close> ranges over the map \<^verbatim>\<open>dnsToIPs\<close>, and Go may visit the entries
  in another order on every call. The parameter \<open>dnsToIPs\<close> gives, for the \<open>n\<close>-th call,
  the entries in the order of that call; \<open>ranged\<close> counts the calls.
\<close>

record pass_state =
  objs :: "KnoxNetworkPolicy list"
  slots :: "nat list"
  p_labels :: outdated_labels
  ranged :: nat

fun getDomainNameFromMap :: "string \<Rightarrow> (string \<times> string list) list \<Rightarrow> string" where
  "getDomainNameFromMap inIP [] = []"
| "getDomainNameFromMap inIP ((domain, ips) # dnsToIPs) =
     (if list_ex (\<lambda>ip. inIP = ip) ips then domain else getDomainNameFromMap inIP dnsToIPs)"

definition getToFQDNsFromNewDiscoveredPolicies ::
  "KnoxNetworkPolicy \<Rightarrow> KnoxNetworkPolicy list \<Rightarrow> nat list \<Rightarrow> nat list" where
  "getToFQDNsFromNewDiscoveredPolicies policy os newSlots =
     foldl (\<lambda>toFQDNs s.
              let newPolicy = os ! s in
              if Selector (Spec policy) = Selector (Spec newPolicy) then
                foldl (\<lambda>toFQDNs egress.
                         if length (elems (e_ToFQDNs egress)) > 0 \<and>
                            \<not> ContainsElement (map (\<lambda>j. os ! j) toFQDNs) newPolicy
                         then toFQDNs @ [s] else toFQDNs)
                  toFQDNs (elems (Egress (Spec newPolicy)))
              else toFQDNs) [] newSlots"

definition lists_domain :: "string \<Rightarrow> KnoxNetworkPolicy \<Rightarrow> bool" where
  "lists_domain domainName policy =
     list_ex (\<lambda>egress. list_ex (\<lambda>fqdn. ContainsElement (elems (MatchNames fqdn)) domainName)
                         (elems (e_ToFQDNs egress)))
       (elems (Egress (Spec policy)))"

definition existDomainNameInFQDN :: "string \<Rightarrow> KnoxNetworkPolicy list \<Rightarrow> nat list \<Rightarrow> nat option" where
  "existDomainNameInFQDN domainName os fqdnPolicies =
     List.find (\<lambda>j. lists_domain domainName (os ! j)) fqdnPolicies"

text \<open>The body of the innermost loop, for one CIDR of an existing CIDR policy.\<close>

definition promote_cidr ::
  "(nat \<Rightarrow> (string \<times> string list) list) \<Rightarrow> KnoxNetworkPolicy \<Rightarrow> nat list \<Rightarrow> string \<Rightarrow>
   pass_state \<Rightarrow> abort + pass_state" where
  "promote_cidr dnsToIPs existCIDR toFQDNs cidr st =
     (let ip = before_slash cidr;
          domainName = getDomainNameFromMap ip (dnsToIPs (ranged st));
          st = st\<lparr>ranged := Suc (ranged st)\<rparr>
      in case existDomainNameInFQDN domainName (objs st) toFQDNs of
           None \<Rightarrow> Inr st
         | Some j \<Rightarrow>
             (case Egress0 existCIDR of
                Inl e \<Rightarrow> Inl e
              | Inr ce \<Rightarrow>
                  (case (if length (elems (e_ToPorts ce)) > 0 then
                           (case Egress0 (objs st ! j) of
                              Inl e \<Rightarrow> Inl e
                            | Inr fe \<Rightarrow>
                                (case set_Egress0_ToPorts (objs st ! j)
                                        (merge_ports (Some (elems (e_ToPorts fe))) (elems (e_ToPorts ce))) of
                                   Inl e \<Rightarrow> Inl e
                                 | Inr fqdnPolicy \<Rightarrow>
                                     let os = (objs st)[j := fqdnPolicy] in
                                     Inr (st\<lparr>objs := os,
                                             slots := map (\<lambda>s. if name_of fqdnPolicy = name_of (os ! s)
                                                                then j else s) (slots st)\<rparr>)))
                         else Inr st) of
                     Inl e \<Rightarrow> Inl e
                   | Inr st \<Rightarrow>
                       Inr (st\<lparr>p_labels := p_labels st @ [(name_of existCIDR, name_of (objs st ! j))]\<rparr>))))"

definition promote_toCidr ::
  "(nat \<Rightarrow> (string \<times> string list) list) \<Rightarrow> KnoxNetworkPolicy \<Rightarrow> SpecCIDR \<Rightarrow>
   pass_state \<Rightarrow> abort + pass_state" where
  "promote_toCidr dnsToIPs existCIDR toCidr st =
     (let toFQDNs = getToFQDNsFromNewDiscoveredPolicies existCIDR (objs st) (slots st)
      in for_each (promote_cidr dnsToIPs existCIDR toFQDNs) (elems (CIDRs toCidr)) st)"

definition promote_existing ::
  "(nat \<Rightarrow> (string \<times> string list) list) \<Rightarrow> KnoxNetworkPolicy \<Rightarrow> pass_state \<Rightarrow> abort + pass_state" where
  "promote_existing dnsToIPs existCIDR st =
     (let policyType = lookup (Metadata existCIDR) ''type'';
          rule = lookup (Metadata existCIDR) ''rule''
      in if policyType = ''egress'' \<and> Contains rule ''toCIDRs'' then
           (case Egress0 existCIDR of
              Inl e \<Rightarrow> Inl e
            | Inr ce \<Rightarrow> for_each (promote_toCidr dnsToIPs existCIDR) (elems (e_ToCIDRs ce)) st)
         else Inr st)"

definition updateExistCIDRtoNewFQDN ::
  "KnoxNetworkPolicy list \<Rightarrow> (nat \<Rightarrow> (string \<times> string list) list) \<Rightarrow> pass_state \<Rightarrow> abort + pass_state" where
  "updateExistCIDRtoNewFQDN existingPolicies dnsToIPs st =
     for_each (promote_existing dnsToIPs) existingPolicies st"

text \<open>
  \<^verbatim>\<open>DeduplicatePolicies\<close>: the main loop over the discovered policies, then the promotion
  pass. The result is the returned list \<^verbatim>\<open>newPolicies\<close>, the outdated labels written, in
  order, and the unused draws.
\<close>

definition DeduplicatePolicies ::
  "KnoxNetworkPolicy list \<Rightarrow> KnoxNetworkPolicy list \<Rightarrow> (nat \<Rightarrow> (string \<times> string list) list) \<Rightarrow>
   string list \<Rightarrow> abort + (KnoxNetworkPolicy list \<times> outdated_labels \<times> string list)" where
  "DeduplicatePolicies existingPolicies discoveredPolicies dnsToIPs rs =
     (case for_each (dedup_step existingPolicies) discoveredPolicies
             \<lparr> newPolicies = [], labels = [], draws = rs \<rparr> of
        Inl e \<Rightarrow> Inl e
      | Inr st \<Rightarrow>
          (case updateExistCIDRtoNewFQDN existingPolicies dnsToIPs
                  \<lparr> objs = newPolicies st, slots = [0..<length (newPolicies st)],
                    p_labels = labels st, ranged = 0 \<rparr> of
             Inl e \<Rightarrow> Inl e
           | Inr ps \<Rightarrow> Inr (map (\<lambda>s. objs ps ! s) (slots ps), p_labels ps, draws st)))"

section \<open>Concrete inputs\<close>

text \<open>Raw flows: one denied by policy, one without an IP record, two with timestamps.\<close>

definition denied_flow :: Flow where
  "denied_flow = \<lparr> Time = None, Verdict = 2, DropReason = 181, IP = None, L4 = None,
     Source = None, Destination = None, L7 = None, TrafficDirection = EGRESS \<rparr>"

definition flow_without_ip :: Flow where
  "flow_without_ip = \<lparr> Time = Some \<lparr> Seconds = 1600000000 \<rparr>, Verdict = 1, DropReason = 0,
     IP = None, L4 = Some (L4_TCP \<lparr> tcp_SourcePort = 40000, tcp_DestinationPort = 443, tcp_Flags = None \<rparr>),
     Source = Some \<lparr> ep_Namespace = ''default'', ep_Labels = [], ep_PodName = [] \<rparr>,
     Destination = Some \<lparr> ep_Namespace = ''default'', ep_Labels = [], ep_PodName = ''web'' \<rparr>,
     L7 = None, TrafficDirection = EGRESS \<rparr>"

definition flow_without_time :: Flow where
  "flow_without_time = \<lparr> Time = None, Verdict = 1, DropReason = 0, IP = None, L4 = None,
     Source = None, Destination = None, L7 = None, TrafficDirection = EGRESS \<rparr>"

definition flow_at :: "64 word \<Rightarrow> Flow" where
  "flow_at t = \<lparr> Time = Some \<lparr> Seconds = t \<rparr>, Verdict = 1, DropReason = 0, IP = None, L4 = None,
     Source = None, Destination = None, L7 = None, TrafficDirection = INGRESS \<rparr>"

text \<open>Canonical policies with one CIDR egress entry, for the workload \<open>app = a\<close>.\<close>

definition sel_a :: Selector where
  "sel_a = \<lparr> MatchLabels = Some [''app'' \<mapsto> ''a''] \<rparr>"

definition port80 :: SpecPort where
  "port80 = \<lparr> sp_Port = ''80'', sp_Protocol = ''TCP'' \<rparr>"

definition port443 :: SpecPort where
  "port443 = \<lparr> sp_Port = ''443'', sp_Protocol = ''TCP'' \<rparr>"

definition cidr_egress :: "string list \<Rightarrow> SpecPort slice \<Rightarrow> Egress" where
  "cidr_egress cs ps = \<lparr> e_MatchLabels = None, e_ToPorts = ps,
     e_ToCIDRs = Some [\<lparr> CIDRs = Some cs \<rparr>], e_ToEndtities = None, e_ToServices = None,
     e_ToFQDNs = None, e_ToHTTPs = None \<rparr>"

definition cidr_policy :: "string \<Rightarrow> string \<Rightarrow> string list \<Rightarrow> SpecPort slice \<Rightarrow> KnoxNetworkPolicy" where
  "cidr_policy name status cs ps =
     \<lparr> Metadata = Some [''type'' \<mapsto> ''egress'', ''rule'' \<mapsto> ''toCIDRs'', ''status'' \<mapsto> status,
                        ''name'' \<mapsto> name],
       Spec = \<lparr> Selector = sel_a, Egress = Some [cidr_egress cs ps], Ingress = None \<rparr> \<rparr>"

definition two_cidrs :: "string list" where
  "two_cidrs = [''10.0.0.1/32'', ''10.0.0.2/32'']"





text \<open>An empty DNS resolution map.\<close>

definition no_dns :: "nat \<Rightarrow> (string \<times> string list) list" where
  "no_dns n = []"

text \<open>A label policy whose egress and ingress entries carry the same port without a number.\<close>

definition unnumbered_port :: SpecPort where
  "unnumbered_port = \<lparr> sp_Port = [], sp_Protocol = ''tcp'' \<rparr>"

definition label_policy :: KnoxNetworkPolicy where
  "label_policy =
     \<lparr> Metadata = Some [''name'' \<mapsto> ''autopol-x'', ''namespace'' \<mapsto> ''default'', ''status'' \<mapsto> ''latest''],
       Spec = \<lparr> Selector = sel_a,
                Egress = Some [\<lparr> e_MatchLabels = Some [''app'' \<mapsto> ''b''], e_ToPorts = Some [unnumbered_port],
                                 e_ToCIDRs = None, e_ToEndtities = None, e_ToServices = None,
                                 e_ToFQDNs = None, e_ToHTTPs = None \<rparr>],
                Ingress = Some [\<lparr> i_MatchLabels = Some [''app'' \<mapsto> ''b''], i_ToPorts = Some [unnumbered_port],
                                  i_ToHTTPs = None, i_FromCIDRs = None, i_FromEntities = None \<rparr>] \<rparr> \<rparr>"

text \<open>The same policy with other lifecycle metadata.\<close>

definition relabelled_policy :: KnoxNetworkPolicy where
  "relabelled_policy = label_policy\<lparr>Metadata :=
      Some [''name'' \<mapsto> ''autopol-x'', ''namespace'' \<mapsto> ''default'', ''status'' \<mapsto> ''outdated'',
            ''rule'' \<mapsto> ''matchLabels'', ''type'' \<mapsto> ''egress'']\<rparr>"

section \<open>Predicates used in the statements\<close>

text \<open>
  The drain reads the timestamps of the first and of the last buffered flow: a buffer
  has a time span when it is empty or both are present.
\<close>

definition has_time_span :: "Flow list \<Rightarrow> bool" where
  "has_time_span buf = (buf = [] \<or> (Time (hd buf) \<noteq> None \<and> Time (last buf) \<noteq> None))"


text \<open>The definitions that a concrete run of the deduplicator unfolds.\<close>

lemmas dedup_defs = DeduplicatePolicies_def dedup_step_def IsExistedPolicy_def UpdateCIDR_def
  UpdateFQDN_def merge_latest_def ReplaceDuplcatedName_def updateExistCIDRtoNewFQDN_def
  promote_existing_def promote_toCidr_def promote_cidr_def getToFQDNsFromNewDiscoveredPolicies_def
  existDomainNameInFQDN_def lists_domain_def set_Egress0_ToPorts_def merge_ports_def Egress0_def
  Egress0_CIDRs_def Egress0_MatchNames_def included_def name_of_def lookup_def entries_def
  elems_def append_slice_def ContainsElement_def HasPrefix_def before_slash_def zero_policy_def
  no_dns_def

lemmas input_defs = cidr_policy_def cidr_egress_def port80_def port443_def sel_a_def

section \<open>Library functions: checks of the definitions\<close>

lemma Contains_sublist: "Contains s substr = sublist substr s"
  by (induction s) (auto simp add: sublist_Cons_right)

lemma Itoa_examples: "Itoa 53 = ''53''" "Itoa 0 = ''0''" "Itoa (- 120) = ''-120''"
  by (simp_all add: Itoa_def digit_char_def)

lemma ToUpper_example: "ToUpper ''udp'' = ''UDP''"
  by (simp add: ToUpper_def upper_char_def)

section \<open>Properties of the flow normalizer\<close>

text \<open>
  Claim C7. A raw flow whose verdict is DROPPED and whose drop reason is the policy-deny
  code 181 is discarded: the normalizer returns \<open>ok = False\<close> together with the zero
  log, whatever else the flow holds, and it returns before any sub-record is read.
\<close>

theorem deny_replay_discarded:
  "Verdict f = Verdict_DROPPED \<Longrightarrow> DropReason f = 181 \<Longrightarrow>
   ConvertCiliumFlowToKnoxNetworkLog url_Parse f = Inr (zero_log, False)"
  by (simp add: ConvertCiliumFlowToKnoxNetworkLog_def)

text \<open>The flow \<open>denied_flow\<close> is such a flow, and all its sub-records are absent.\<close>

theorem deny_replay_discarded_witness:
  "Verdict denied_flow = Verdict_DROPPED \<and> DropReason denied_flow = 181 \<and>
   ConvertCiliumFlowToKnoxNetworkLog (\<lambda>u. Some u) denied_flow = Inr (zero_log, False)"
proof -
  have v: "Verdict denied_flow = Verdict_DROPPED"
    by (simp add: denied_flow_def Verdict_DROPPED_def)
  have d: "DropReason denied_flow = 181"
    by (simp add: denied_flow_def)
  from deny_replay_discarded [OF v d] v d show ?thesis by simp
qed

text \<open>
  Claim C10 says that the normalizer reads an optional sub-record only after it has
  found it present, and so returns \<open>(log, ok)\<close> for every flow. The code tests
  \<^verbatim>\<open>ciliumFlow.IP != nil\<close> only after the pod names are set, and the pod name of an
  endpoint without one is read from \<^verbatim>\<open>ciliumFlow.IP\<close>: on \<open>flow_without_ip\<close>, whose source
  has no pod name and which has no IP record, the call panics instead of returning
  \<open>ok = False\<close>. (The fields of \<^verbatim>\<open>Source\<close> and \<^verbatim>\<open>Destination\<close> are read with no test.)
\<close>

theorem missing_ip_panics:
  "ConvertCiliumFlowToKnoxNetworkLog url_Parse flow_without_ip = Inl NilDereference"
  by (simp add: ConvertCiliumFlowToKnoxNetworkLog_def flow_without_ip_def Verdict_DROPPED_def
      set_namespaces_def set_pods_def)

section \<open>Properties of the flow buffer\<close>

text \<open>
  Claim C3, as stated, fails on a buffer whose first flow has no timestamp: the
  threshold 1 is reached, the buffer is reset, and the read of the timestamp for the log
  line panics, so that nothing is returned.
\<close>

theorem drain_without_timestamp:
  "GetCiliumFlowsFromHubble 1 [flow_without_time] = ([], Inl NilDereference)"
  by (simp add: GetCiliumFlowsFromHubble_def flow_without_time_def)

text \<open>
  Claim C3, amended. For every buffer and every threshold: when the buffer length has
  not reached the threshold, the drain returns the empty sequence and leaves the buffer
  as it is, whatever the flows hold; when the buffer length has reached the threshold,
  and the buffer is empty or its first and last flows carry a timestamp, the drain
  returns the whole buffer and resets it.
\<close>

theorem drain_threshold:
  assumes "trigger \<le> int (length buf) \<Longrightarrow> has_time_span buf"
  shows "\<exists>ev. GetCiliumFlowsFromHubble trigger buf =
           (if trigger \<le> int (length buf) then ([], Inr (buf, ev)) else (buf, Inr ([], ev)))"
proof (cases "trigger \<le> int (length buf)")
  case reached: True
  show ?thesis
  proof (cases "buf = []")
    case True
    then show ?thesis by (simp add: GetCiliumFlowsFromHubble_def)
  next
    case False
    with assms [OF reached] obtain s e where "Time (hd buf) = Some s" "Time (last buf) = Some e"
      by (auto simp add: has_time_span_def)
    with False reached show ?thesis
      by (simp add: GetCiliumFlowsFromHubble_def Let_def)
  qed
next
  case False
  then show ?thesis
    by (simp add: GetCiliumFlowsFromHubble_def)
qed

text \<open>
  A buffer of two flows with timestamps at the threshold 2, and a buffer of one flow
  without a timestamp below the threshold 3.
\<close>

theorem drain_threshold_witness:
  "2 \<le> int (length [flow_at 10, flow_at 20]) \<and> has_time_span [flow_at 10, flow_at 20] \<and>
   GetCiliumFlowsFromHubble 2 [flow_at 10, flow_at 20] =
     ([], Inr ([flow_at 10, flow_at 20], TotalNumber 2 10 20)) \<and>
   int (length [flow_without_time]) < 3 \<and> Time (hd [flow_without_time]) = None \<and>
   GetCiliumFlowsFromHubble 3 [flow_without_time] =
     ([flow_without_time], Inr ([], LessThanTrigger 1 3))"
proof -
  have h: "2 \<le> int (length [flow_at 10, flow_at 20]) \<Longrightarrow> has_time_span [flow_at 10, flow_at 20]"
    by (simp add: has_time_span_def flow_at_def)
  have k: "3 \<le> int (length [flow_without_time]) \<Longrightarrow> has_time_span [flow_without_time]"
    by simp
  have n: "Time (hd [flow_without_time]) = None"
    by (simp add: flow_without_time_def)
  from drain_threshold [OF h] drain_threshold [OF k] h n show ?thesis
    by (simp add: GetCiliumFlowsFromHubble_def flow_at_def)
qed

section \<open>Properties of the synthesizer\<close>

text \<open>
  Claim C6 says that the ingress label branch skips a port entry without a number, as
  the egress label branch does. The egress loop has the test, the ingress loop has
  none: for \<open>label_policy\<close>, whose egress and ingress entries carry the same port
  without a number, the egress entry gets no port list, and the ingress entry gets a
  port list that holds the port with the empty number.
\<close>

theorem ingress_keeps_port_without_number:
  "cs_Egress (cnp_Spec (ConvertKnoxNetworkPolicyToCiliumPolicy [] [] label_policy)) =
     Some [\<lparr> ToEndpoints = Some [\<lparr> ce_MatchLabels = Some [''app'' \<mapsto> ''b''] \<rparr>], ToPorts = None,
             ToCIDRs = None, ToEntities = None, ToServices = None, ToFQDNs = None \<rparr>] \<and>
   cs_Ingress (cnp_Spec (ConvertKnoxNetworkPolicyToCiliumPolicy [] [] label_policy)) =
     Some [\<lparr> FromEndpoints = Some [\<lparr> ce_MatchLabels = Some [''app'' \<mapsto> ''b''] \<rparr>],
             ci_ToPorts = Some [\<lparr> Ports = Some [\<lparr> cp_Port = [], cp_Protocol = ''TCP'' \<rparr>], Rules = None \<rparr>],
             FromCIDRs = None, FromEntities = None \<rparr>]"
  by (simp add: ConvertKnoxNetworkPolicyToCiliumPolicy_def buildNewCiliumNetworkPolicy_def
      label_policy_def unnumbered_port_def convert_egress_def convert_ingress_def elems_def
      zero_CiliumEgress_def zero_CiliumIngress_def http_rules_def allocate_def attach_port_def
      append_slice_def ToUpper_def upper_char_def)

text \<open>The metadata that the loop of \<^verbatim>\<open>buildNewCiliumNetworkPolicy\<close> copies.\<close>

lemma foldl_copy_entry:
  "foldl (copy_entry src) acc ks k =
     (if k \<in> set ks \<and> (k = ''name'' \<or> k = ''namespace'') \<and> src k \<noteq> None then src k else acc k)"
  by (induction ks arbitrary: acc) (auto simp add: copy_entry_def split: option.splits)

lemma copied_metadata:
  assumes "set ks = dom src"
  shows "foldl (copy_entry src) Map.empty ks = src |` {''name'', ''namespace''}"
proof
  fix k
  from assms show "foldl (copy_entry src) Map.empty ks k = (src |` {''name'', ''namespace''}) k"
    by (auto simp add: foldl_copy_entry restrict_map_def)
qed

lemma synthesis_by_restriction:
  assumes "set ks = dom (entries (Metadata p))"
  shows "ConvertKnoxNetworkPolicyToCiliumPolicy services ks p =
         ConvertKnoxNetworkPolicyToCiliumPolicy services []
           (p\<lparr>Metadata := None\<rparr>)
           \<lparr>cnp_Metadata := Some (entries (Metadata p) |` {''name'', ''namespace''})\<rparr>"
  using copied_metadata [OF assms]
  by (simp add: ConvertKnoxNetworkPolicyToCiliumPolicy_def buildNewCiliumNetworkPolicy_def Let_def)

text \<open>
  Claim C8. Two canonical policies with the same spec whose metadata agree on the keys
  \<^verbatim>\<open>name\<close> and \<^verbatim>\<open>namespace\<close> are synthesized to the same platform policy, in whatever
  order the metadata maps are ranged over, and the metadata of the platform policy
  holds no key other than \<^verbatim>\<open>name\<close> and \<^verbatim>\<open>namespace\<close>.
\<close>

theorem synthesis_reads_name_and_namespace_only:
  assumes "Spec p = Spec q"
    and "entries (Metadata p) ''name'' = entries (Metadata q) ''name''"
    and "entries (Metadata p) ''namespace'' = entries (Metadata q) ''namespace''"
    and "set ks = dom (entries (Metadata p))"
    and "set ks' = dom (entries (Metadata q))"
  shows "ConvertKnoxNetworkPolicyToCiliumPolicy services ks p =
         ConvertKnoxNetworkPolicyToCiliumPolicy services ks' q \<and>
         dom (entries (cnp_Metadata (ConvertKnoxNetworkPolicyToCiliumPolicy services ks p)))
           \<subseteq> {''name'', ''namespace''}"
proof -
  have r: "entries (Metadata p) |` {''name'', ''namespace''} = entries (Metadata q) |` {''name'', ''namespace''}"
    using assms(2,3) by (auto simp add: restrict_map_def fun_eq_iff)
  have s: "p\<lparr>Metadata := None\<rparr> = q\<lparr>Metadata := None\<rparr>"
    using assms(1) by simp
  have "ConvertKnoxNetworkPolicyToCiliumPolicy services ks p =
        ConvertKnoxNetworkPolicyToCiliumPolicy services ks' q"
    by (simp only: synthesis_by_restriction [OF assms(4)] synthesis_by_restriction [OF assms(5)] r s)
  moreover have "dom (entries (cnp_Metadata (ConvertKnoxNetworkPolicyToCiliumPolicy services ks p)))
           \<subseteq> {''name'', ''namespace''}"
    by (simp add: synthesis_by_restriction [OF assms(4)] entries_def)
  ultimately show ?thesis by simp
qed

text \<open>
  The policies \<open>label_policy\<close> and \<open>relabelled_policy\<close> differ in their status, rule
  and type entries.
\<close>

theorem synthesis_reads_name_and_namespace_only_witness:
  "Spec label_policy = Spec relabelled_policy \<and>
   entries (Metadata label_policy) ''name'' = entries (Metadata relabelled_policy) ''name'' \<and>
   entries (Metadata label_policy) ''namespace'' = entries (Metadata relabelled_policy) ''namespace'' \<and>
   set [''status'', ''name'', ''namespace''] = dom (entries (Metadata label_policy)) \<and>
   set [''type'', ''namespace'', ''rule'', ''status'', ''name''] = dom (entries (Metadata relabelled_policy)) \<and>
   ConvertKnoxNetworkPolicyToCiliumPolicy [] [''status'', ''name'', ''namespace''] label_policy =
   ConvertKnoxNetworkPolicyToCiliumPolicy [] [''type'', ''namespace'', ''rule'', ''status'', ''name''] relabelled_policy \<and>
   dom (entries (cnp_Metadata (ConvertKnoxNetworkPolicyToCiliumPolicy [] [''status'', ''name'', ''namespace''] label_policy)))
     \<subseteq> {''name'', ''namespace''}"
proof -
  have a: "Spec label_policy = Spec relabelled_policy"
    by (simp add: relabelled_policy_def)
  have b: "entries (Metadata label_policy) ''name'' = entries (Metadata relabelled_policy) ''name''"
    by (simp add: relabelled_policy_def label_policy_def entries_def)
  have c: "entries (Metadata label_policy) ''namespace'' = entries (Metadata relabelled_policy) ''namespace''"
    by (simp add: relabelled_policy_def label_policy_def entries_def)
  have d: "set [''status'', ''name'', ''namespace''] = dom (entries (Metadata label_policy))"
    by (auto simp add: label_policy_def entries_def)
  have e: "set [''type'', ''namespace'', ''rule'', ''status'', ''name''] = dom (entries (Metadata relabelled_policy))"
    by (auto simp add: relabelled_policy_def entries_def)
  from synthesis_reads_name_and_namespace_only [OF a b c d e, of "[]"] a b c d e
  show ?thesis by blast
qed

text \<open>
  Claim C9. Two invocations of the synthesizer on the same service catalog and the same
  canonical policy give the same platform policy: the order in which a run ranges over
  the metadata map, the one thing that can differ between two runs, has no influence.
\<close>

theorem synthesis_deterministic:
  assumes "set ks = dom (entries (Metadata p))" and "set ks' = dom (entries (Metadata p))"
  shows "ConvertKnoxNetworkPolicyToCiliumPolicy services ks p =
         ConvertKnoxNetworkPolicyToCiliumPolicy services ks' p"
  by (simp only: synthesis_by_restriction [OF assms(1)] synthesis_by_restriction [OF assms(2)])

text \<open>Two orders over the metadata of \<open>label_policy\<close>.\<close>

theorem synthesis_deterministic_witness:
  "set [''status'', ''name'', ''namespace''] = dom (entries (Metadata label_policy)) \<and>
   set [''namespace'', ''name'', ''status''] = dom (entries (Metadata label_policy)) \<and>
   ConvertKnoxNetworkPolicyToCiliumPolicy [] [''status'', ''name'', ''namespace''] label_policy =
   ConvertKnoxNetworkPolicyToCiliumPolicy [] [''namespace'', ''name'', ''status''] label_policy"
proof -
  have d: "set [''status'', ''name'', ''namespace''] = dom (entries (Metadata label_policy))"
    by (auto simp add: label_policy_def entries_def)
  have e: "set [''namespace'', ''name'', ''status''] = dom (entries (Metadata label_policy))"
    by (auto simp add: label_policy_def entries_def)
  from synthesis_deterministic [OF d e, of "[]"] d e show ?thesis by simp
qed

section \<open>Properties of the deduplicator\<close>

text \<open>
  Claim C1 says that \<^verbatim>\<open>GetLatestCIDRs\<close> returns an existing policy only when its CIDR set
  equals that of the discovered policy. The loops under \<^verbatim>\<open>check cidr list\<close> both range
  over the CIDRs of the discovered policy, and the CIDRs of the existing policy are
  never read: an existing policy for \<^verbatim>\<open>9.9.9.9/32\<close> is returned as the match of a
  discovered policy for \<^verbatim>\<open>10.0.0.5/32\<close>.
\<close>

theorem GetLatestCIDRs_ignores_existing_cidrs:
  "GetLatestCIDRs [cidr_policy ''old'' ''latest'' [''9.9.9.9/32''] (Some [port80])]
     (cidr_policy ''new'' ''latest'' [''10.0.0.5/32''] (Some [port443])) =
   Inr (cidr_policy ''old'' ''latest'' [''9.9.9.9/32''] (Some [port80]), True)"
  by (simp add: dedup_defs input_defs)

text \<open>
  Claim C4 says that a discovered policy with the ports 443/TCP is merged with the
  existing latest policy of the same selector and CIDR set with the ports 80/TCP. With
  two CIDRs in the set the flag \<open>included\<close> is false, since the discovered list is
  compared with itself and its two CIDRs differ: the existing policy is not found, the
  discovered policy is returned with its own ports only, and no label is written.
\<close>

theorem multi_cidr_policy_not_merged:
  "DeduplicatePolicies [cidr_policy ''old'' ''latest'' two_cidrs (Some [port80])]
     [cidr_policy ''new'' ''latest'' two_cidrs (Some [port443])] no_dns [] =
   Inr ([cidr_policy ''new'' ''latest'' two_cidrs (Some [port443])], [], [])"
  by (simp add: dedup_defs input_defs two_cidrs_def)

text \<open>
  Claim C5 says that a discovered policy without ports is discarded when the existing
  latest policy of the same selector and CIDR set has ports. With two CIDRs in the set
  the existing policy is not found, for the same reason, and the discovered policy is
  returned.
\<close>

theorem multi_cidr_weaker_policy_kept:
  "DeduplicatePolicies [cidr_policy ''old'' ''latest'' two_cidrs (Some [port80])]
     [cidr_policy ''new'' ''latest'' two_cidrs None] no_dns [] =
   Inr ([cidr_policy ''new'' ''latest'' two_cidrs None], [], [])"
  by (simp add: dedup_defs input_defs two_cidrs_def)

text \<open>With a single CIDR both runs end as the two claims say.\<close>

lemma single_cidr_policy_merged:
  "DeduplicatePolicies [cidr_policy ''old'' ''latest'' [''10.0.0.1/32''] (Some [port80])]
     [cidr_policy ''new'' ''latest'' [''10.0.0.1/32''] (Some [port443])] no_dns [] =
   Inr ([cidr_policy ''new'' ''latest'' [''10.0.0.1/32''] (Some [port443, port80])], [(''old'', ''new'')], [])"
  by (simp add: dedup_defs input_defs)

lemma single_cidr_weaker_policy_discarded:
  "DeduplicatePolicies [cidr_policy ''old'' ''latest'' [''10.0.0.1/32''] (Some [port80])]
     [cidr_policy ''new'' ''latest'' [''10.0.0.1/32''] None] no_dns [] = Inr ([], [], [])"
  by (simp add: dedup_defs input_defs)



lemma fresh_name_returns:
  assumes "r \<in> set rs"
    and "''autopol-egress'' @ r \<notin> set existNames"
    and "''autopol-ingress'' @ r \<notin> set existNames"
  shows "\<exists>name' rs'. fresh_name existNames name rs = Inr (name', rs')"
  using assms(1)
proof (induction rs arbitrary: name)
  case Nil
  then show ?case by simp
next
  case (Cons a rs)
  show ?case
  proof (cases "r = a")
    case True
    have "\<And>n. n \<notin> set existNames \<Longrightarrow> \<exists>name' rs'. fresh_name existNames n rs = Inr (name', rs')"
      by (cases rs) (simp_all add: ContainsElement_def)
    with True assms(2,3) show ?thesis
      by (simp add: ContainsElement_def)
  next
    case False
    with Cons.prems have "r \<in> set rs" by simp
    from Cons.IH [OF this] show ?thesis by simp
  qed
qed
















end
